theory Spec2Isabelle
  imports Complex_Main "HOL-Library.Multiset" "HOL-Library.Char_ord" "HOL-Library.List_Lexorder"
begin

section \<open>Python values, exceptions and loops\<close>

text \<open>
  The federation coordinator is Python. An exception raised by the source is a value of
  \<open>error\<close>; \<open>Abort\<close> is the exception with which \<open>context.abort(code, ...)\<close> of
  the gRPC runtime ends a request. A method that mutates its object and may raise returns
  the raised exception (if any) together with the object as it is at that moment.
\<close>

datatype status_code = UNAUTHENTICATED | UNAVAILABLE

datatype error =
    ValueError | KeyError | IndexError | TypeError | AttributeError
  | AssertionError | ZeroDivisionError | Abort status_code

text \<open>A \<open>for\<close> loop whose body mutates the state and may raise: the first exception ends it.\<close>

fun for_each :: "('a \<Rightarrow> 's \<Rightarrow> error option \<times> 's) \<Rightarrow> 'a list \<Rightarrow> 's \<Rightarrow> error option \<times> 's" where
  "for_each f [] s = (None, s)"
| "for_each f (x # xs) s =
     (case f x s of
        (None, s') \<Rightarrow> for_each f xs s'
      | (Some e, s') \<Rightarrow> (Some e, s'))"

section \<open>The cutoff-time straggler policy\<close>

text \<open>
  \<open>cutoff_time_based_straggler_handling.py\<close>. A cutoff is a Python number: a finite value
  or \<open>np.inf\<close>. Clock readings (\<open>time.time()\<close>) are passed in as \<open>now\<close>; every
  method reads the clock once. The attribute \<open>timer\<close> holds the interval of the pending
  \<open>threading.Timer\<close> (\<open>None\<close> when the object has no such attribute), and \<open>callback\<close>
  says whether the attribute \<open>callback\<close> has been set by \<open>start_policy\<close>.
\<close>

datatype seconds = Finite real | Inf

fun gt :: "seconds \<Rightarrow> seconds \<Rightarrow> bool" where
  "gt (Finite a) (Finite b) = (a > b)"
| "gt Inf (Finite b) = True"
| "gt a Inf = False"

text \<open>Python's \<open>max(a, b)\<close> keeps \<open>a\<close> unless \<open>b > a\<close>.\<close>

definition py_max :: "seconds \<Rightarrow> seconds \<Rightarrow> seconds" where
  "py_max a b = (if gt b a then b else a)"

fun minus_seconds :: "seconds \<Rightarrow> real \<Rightarrow> seconds" where
  "minus_seconds (Finite a) d = Finite (a - d)"
| "minus_seconds Inf d = Inf"

definition MINIMUM_CUTOFF_SECONDS :: seconds where
  "MINIMUM_CUTOFF_SECONDS = Finite 20"

record policy =
  round_start_time :: "real option"
  straggler_cutoff_time :: seconds
  minimum_reporting :: int
  timer :: "seconds option"
  callback :: bool

definition set_cutoff_time :: "seconds \<Rightarrow> policy \<Rightarrow> policy" where
  "set_cutoff_time v p = p\<lparr>straggler_cutoff_time := py_max v MINIMUM_CUTOFF_SECONDS\<rparr>"

definition CutoffTimeBasedStragglerHandling_init ::
  "real option \<Rightarrow> seconds \<Rightarrow> int \<Rightarrow> error + policy" where
  "CutoffTimeBasedStragglerHandling_init rst v m =
     (if m \<le> 0 then Inl ValueError
      else Inr (set_cutoff_time v
             \<lparr>round_start_time = rst, straggler_cutoff_time = v,
              minimum_reporting = m, timer = None, callback = False\<rparr>))"

definition reset_policy_for_round :: "policy \<Rightarrow> policy" where
  "reset_policy_for_round p = (case timer p of None \<Rightarrow> p | Some t \<Rightarrow> p\<lparr>timer := None\<rparr>)"

definition start_policy :: "real \<Rightarrow> policy \<Rightarrow> policy" where
  "start_policy now p =
     (if straggler_cutoff_time p = Inf then p
      else (reset_policy_for_round p)
             \<lparr>round_start_time := Some now,
              timer := Some (straggler_cutoff_time p),
              callback := True\<rparr>)"

definition straggler_time_expired :: "real \<Rightarrow> policy \<Rightarrow> bool" where
  "straggler_time_expired now p =
     (case round_start_time p of
        None \<Rightarrow> False
      | Some t \<Rightarrow> gt (Finite (now - t)) (straggler_cutoff_time p))"

definition minimum_collaborators_reported :: "int \<Rightarrow> policy \<Rightarrow> bool" where
  "minimum_collaborators_reported num_collaborators_done p =
     (num_collaborators_done \<ge> minimum_reporting p)"

definition straggler_cutoff_check :: "real \<Rightarrow> int \<Rightarrow> int \<Rightarrow> policy \<Rightarrow> bool" where
  "straggler_cutoff_check now num_collaborators_done num_all_collaborators p =
     (if \<not> straggler_time_expired now p then False
      else if minimum_collaborators_reported num_collaborators_done p then True
      else False)"

text \<open>
  \<open>set_straggler_cutoff_time\<close> returns whether it has called the callback. Reading
  \<open>self.callback\<close> before \<open>start_policy\<close> has set it raises \<open>AttributeError\<close>, and
  \<open>time.time() - self.round_start_time\<close> raises \<open>TypeError\<close> while the start time is
  \<open>None\<close>; both happen after the new cutoff has been stored.
\<close>

definition set_straggler_cutoff_time ::
  "seconds \<Rightarrow> real \<Rightarrow> policy \<Rightarrow> (error + bool) \<times> policy" where
  "set_straggler_cutoff_time v now p =
     (let p1 = set_cutoff_time v (reset_policy_for_round p) in
      if straggler_time_expired now p1 then
        (if callback p1 then (Inr True, p1) else (Inl AttributeError, p1))
      else
        (case round_start_time p1 of
           None \<Rightarrow> (Inl TypeError, p1)
         | Some t \<Rightarrow>
             if callback p1
             then (Inr False,
                   p1\<lparr>timer := Some (minus_seconds (straggler_cutoff_time p1) (now - t))\<rparr>)
             else (Inl AttributeError, p1)))"

section \<open>The dynamic random grouped assigner\<close>

text \<open>
  \<open>dynamic_random_grouped_assigner.py\<close>. A task is its name; the assigner keys its tables
  by the tasks of the groups. A percentage is a Python float, which is a rational number; the
  product \<open>percentage * col_list_size\<close> is taken exactly here, the rounding of binary
  floating point is outside the model. \<open>int(x)\<close> truncates towards zero. Rounds are the
  keys \<open>range(self.rounds)\<close> of the per-round dictionaries.
\<close>

record task_group =
  name :: string
  percentage :: rat
  tasks :: "string list"

record assigner =
  task_groups :: "task_group list"
  authorized_cols :: "string list"
  rounds :: nat
  all_tasks_in_groups :: "string list"
  task_group_collaborators :: "string \<rightharpoonup> string list"
  collaborators_for_task :: "string \<rightharpoonup> (nat \<rightharpoonup> string list)"
  collaborator_tasks :: "string \<rightharpoonup> (nat \<rightharpoonup> string list)"
  collaborators_to_assign :: "string list"

definition py_int :: "rat \<Rightarrow> int" where
  "py_int q = (if q < 0 then \<lceil>q\<rceil> else \<lfloor>q\<rfloor>)"

text \<open>A slice \<open>xs[i:j]\<close>: a negative bound counts from the end, and both are clipped.\<close>

definition slice_bound :: "nat \<Rightarrow> int \<Rightarrow> nat" where
  "slice_bound n i = (if i < 0 then nat (max 0 (i + int n)) else min (nat i) n)"

definition py_slice :: "'a list \<Rightarrow> int \<Rightarrow> int \<Rightarrow> 'a list" where
  "py_slice xs i j =
     (let s = slice_bound (length xs) i; e = slice_bound (length xs) j
      in take (e - s) (drop s xs))"

text \<open>\<open>[xs[i] for i in idx]\<close> for indices that are not negative.\<close>

fun index_all :: "'a list \<Rightarrow> nat list \<Rightarrow> error + 'a list" where
  "index_all xs [] = Inr []"
| "index_all xs (i # idx) =
     (if i < length xs
      then (case index_all xs idx of Inl e \<Rightarrow> Inl e | Inr ys \<Rightarrow> Inr (xs ! i # ys))
      else Inl IndexError)"


text \<open>The statement \<open>self.collaborator_tasks[col][i] = v\<close>.\<close>

definition set_collaborator_tasks ::
  "string \<Rightarrow> string list \<Rightarrow> nat \<Rightarrow> assigner \<Rightarrow> error option \<times> assigner" where
  "set_collaborator_tasks col v i a =
     (case collaborator_tasks a col of
        None \<Rightarrow> (Some KeyError, a)
      | Some m \<Rightarrow> (None, a\<lparr>collaborator_tasks := (collaborator_tasks a)(col \<mapsto> m(i \<mapsto> v))\<rparr>))"

text \<open>The statement \<open>self.collaborators_for_task[task][round_num] = []\<close>.\<close>

definition reset_collaborators_for_task ::
  "string \<Rightarrow> nat \<Rightarrow> assigner \<Rightarrow> error option \<times> assigner" where
  "reset_collaborators_for_task task round_num a =
     (case collaborators_for_task a task of
        None \<Rightarrow> (Some KeyError, a)
      | Some m \<Rightarrow>
          (None, a\<lparr>collaborators_for_task :=
                     (collaborators_for_task a)(task \<mapsto> m(round_num \<mapsto> []))\<rparr>))"

text \<open>The statement \<open>self.collaborators_for_task[task][round_num] += cols\<close>.\<close>

definition extend_collaborators_for_task ::
  "nat \<Rightarrow> string list \<Rightarrow> string \<Rightarrow> assigner \<Rightarrow> error option \<times> assigner" where
  "extend_collaborators_for_task round_num cols task a =
     (case collaborators_for_task a task of
        None \<Rightarrow> (Some KeyError, a)
      | Some m \<Rightarrow>
          (case m round_num of
             None \<Rightarrow> (Some KeyError, a)
           | Some old \<Rightarrow>
               (None, a\<lparr>collaborators_for_task :=
                          (collaborators_for_task a)(task \<mapsto> m(round_num \<mapsto> old @ cols))\<rparr>)))"

text \<open>
  The body of \<open>for group in self.task_groups\<close>, on the running \<open>col_idx\<close> and the
  assigner; \<open>randomized_col_idx\<close> is the permutation drawn for the round.
\<close>

definition assign_group ::
  "nat list \<Rightarrow> nat \<Rightarrow> task_group \<Rightarrow> int \<times> assigner \<Rightarrow> error option \<times> (int \<times> assigner)" where
  "assign_group randomized_col_idx round_num grp st =
     (let col_idx = fst st; a = snd st;
          col_list_size = int (length (collaborators_to_assign a));
          num_col_in_group = py_int (percentage grp * of_int col_list_size)
      in case index_all (collaborators_to_assign a)
                (py_slice randomized_col_idx col_idx (col_idx + num_col_in_group)) of
           Inl e \<Rightarrow> (Some e, (col_idx, a))
         | Inr rand_col_group_list \<Rightarrow>
             (let a1 = a\<lparr>task_group_collaborators :=
                          (task_group_collaborators a)(name grp \<mapsto> rand_col_group_list)\<rparr>
              in case for_each (\<lambda>col. set_collaborator_tasks col (tasks grp) round_num)
                        rand_col_group_list a1 of
                   (Some e, a2) \<Rightarrow> (Some e, (col_idx, a2))
                 | (None, a2) \<Rightarrow>
                     (case for_each (extend_collaborators_for_task round_num rand_col_group_list)
                             (tasks grp) a2 of
                        (Some e, a3) \<Rightarrow> (Some e, (col_idx, a3))
                      | (None, a3) \<Rightarrow> (None, (col_idx + num_col_in_group, a3)))))"

text \<open>
  The body of \<open>for round_num in range(from_round, self.rounds)\<close>. \<open>choice\<close> stands for
  \<open>np.random.choice(n, n, replace=False)\<close>: the permutation of the indices it returns in
  the given round.
\<close>

definition assign_round :: "(nat \<Rightarrow> nat list) \<Rightarrow> nat \<Rightarrow> assigner \<Rightarrow> error option \<times> assigner" where
  "assign_round choice round_num a =
     (case for_each (assign_group (choice round_num) round_num) (task_groups a) (0, a) of
        (Some e, st) \<Rightarrow> (Some e, snd st)
      | (None, st) \<Rightarrow>
          if fst st = int (length (collaborators_to_assign a)) then (None, snd st)
          else (Some AssertionError, snd st))"

definition assign_tasks :: "(nat \<Rightarrow> nat list) \<Rightarrow> nat \<Rightarrow> assigner \<Rightarrow> error option \<times> assigner" where
  "assign_tasks choice from_round a =
     (case for_each
             (\<lambda>col a. if col \<notin> set (collaborators_to_assign a)
                      then for_each (set_collaborator_tasks col []) [from_round..<rounds a] a
                      else (None, a))
             (authorized_cols a) a of
        (Some e, a1) \<Rightarrow> (Some e, a1)
      | (None, a1) \<Rightarrow>
          (case for_each
                  (\<lambda>task. for_each (reset_collaborators_for_task task) [from_round..<rounds a1])
                  (all_tasks_in_groups a1) a1 of
             (Some e, a2) \<Rightarrow> (Some e, a2)
           | (None, a2) \<Rightarrow> for_each (assign_round choice) [from_round..<rounds a2] a2))"

text \<open>
  \<open>end_of_round\<close>. \<open>sorted\<close> orders the names as Python orders strings: character
  by character, by code.
\<close>

definition end_of_round ::
  "(nat \<Rightarrow> nat list) \<Rightarrow> string list \<Rightarrow> string list \<Rightarrow> nat \<Rightarrow> assigner \<Rightarrow> error option \<times> assigner" where
  "end_of_round choice available_collaborators stragglers next_round a =
     (let new_to_assign = filter (\<lambda>col. col \<notin> set stragglers) available_collaborators
      in if sort new_to_assign = sort (collaborators_to_assign a) then (None, a)
         else assign_tasks choice next_round (a\<lparr>collaborators_to_assign := new_to_assign\<rparr>))"

definition get_tasks_for_collaborator :: "string \<Rightarrow> nat \<Rightarrow> assigner \<Rightarrow> error + string list" where
  "get_tasks_for_collaborator collaborator_name round_number a =
     (case collaborator_tasks a collaborator_name of
        None \<Rightarrow> Inl KeyError
      | Some m \<Rightarrow> (case m round_number of None \<Rightarrow> Inl KeyError | Some ts \<Rightarrow> Inr ts))"

definition get_collaborators_for_task :: "string \<Rightarrow> nat \<Rightarrow> assigner \<Rightarrow> error + string list" where
  "get_collaborators_for_task task_name round_number a =
     (case collaborators_for_task a task_name of
        None \<Rightarrow> Inl KeyError
      | Some m \<Rightarrow> (case m round_number of None \<Rightarrow> Inl KeyError | Some cs \<Rightarrow> Inr cs))"

definition get_assigned_collaborators :: "assigner \<Rightarrow> string list" where
  "get_assigned_collaborators a = collaborators_to_assign a"


section \<open>The aggregator\<close>

text \<open>
  \<open>aggregator.py\<close> and \<open>types.py\<close>. Tasks are bare task names, the form in which the
  dynamic assigner stores them. The straggler policy of the aggregator is the cutoff-time
  policy, its assigner the dynamic random grouped assigner.

  The tensor database, the codec, the model protobuf, the checkpoint files, the metric queue
  and the best score are owned by code outside this repository's sources
  (\<open>openfl.databases\<close>, \<open>openfl.pipelines\<close>, \<open>openfl.protocols.utils\<close>). They are kept
  together in the field \<open>tensors\<close> of an arbitrary type, and the statements of the
  aggregator that only call into that code are parameters (record \<open>env\<close>) acting on it;
  each of them may raise.
\<close>

datatype tensor_key =
  TensorKey (tensor_name: string) (origin: string) (tk_round_number: int)
            (report: bool) (tags: "string list")

datatype task_result_key =
  TaskResultKey (task_name: string) (owner: string) (trk_round_number: nat)

record round_status =
  rs_round :: nat
  rs_round_start :: "real option"
  rs_collaborators :: "string list"
  rs_start_times :: "string \<rightharpoonup> real"
  rs_end_times :: "string \<rightharpoonup> (string \<rightharpoonup> real)"
  rs_stragglers :: "string list"
  rs_to_add_next_round :: "(string \<times> string) list"
  rs_to_remove_next_round :: "(string \<times> string) list"
  rs_available_collaborators :: "string list"
  rs_assigned_collaborators :: "string list"

record 'x aggregator =
  round_number :: nat
  rounds_to_train :: nat
  end_of_round_check_done :: "bool list"
  straggler_handling_policy_started_for_round :: bool
  stragglers :: "string list"
  available_collaborators :: "string list"
  authorized_cols :: "string list"
  assigner :: assigner
  quit_job_sent_to :: "string list"
  straggler_handling_policy :: policy
  tensors :: 'x
  collaborator_tasks_results :: "task_result_key \<rightharpoonup> tensor_key list"
  collaborator_task_weight :: "task_result_key \<rightharpoonup> int"
  collaborators_done :: "string list"
  collaborator_start_time :: "string \<rightharpoonup> real"
  collaborator_end_time :: "string \<rightharpoonup> (string \<rightharpoonup> real)"
  previous_round_status :: "round_status option"
  first_col_start :: "real option"
  admins_endpoints_mapping :: "string \<rightharpoonup> string list"
  collaborators_to_add :: "(string \<times> string) list"
  collaborators_to_remove :: "(string \<times> string) list"

text \<open>
  The parameters. \<open>process_named_tensor\<close> is one pass of the loop over \<open>named_tensors\<close>
  in \<open>send_local_task_results\<close> (\<open>_process_named_tensor\<close> and the metric record);
  \<open>aggregate_tensor\<close> is one pass of the loop over the result keys in
  \<open>_compute_validation_related_task_metrics\<close> after its assertion (the aggregation, the
  metric record, the best model, \<open>_prepare_trained\<close>); \<open>save_model\<close>, \<open>clean_up\<close> and
  \<open>write_dynamic_task_args\<close> are the statements of those names at the end of a round. The
  methods \<open>get_all_tasks_for_round\<close>, \<open>get_aggregation_type_for_task\<close>,
  \<open>add_collaborator\<close> and \<open>remove_collaborator\<close> of the assigner are those of its base
  class, whose source is not part of the repository's files.
\<close>

record ('w, 'x, 'g) env =
  process_named_tensor :: "'w \<Rightarrow> string \<Rightarrow> nat \<Rightarrow> string \<Rightarrow> 'x \<Rightarrow> (error + tensor_key) \<times> 'x"
  aggregate_tensor ::
    "string \<Rightarrow> 'g \<Rightarrow> string \<Rightarrow> (string \<times> rat) list \<Rightarrow> tensor_key \<Rightarrow> 'x \<Rightarrow> error option \<times> 'x"
  save_model :: "nat \<Rightarrow> 'x \<Rightarrow> error option \<times> 'x"
  clean_up :: "'x \<Rightarrow> error option \<times> 'x"
  write_dynamic_task_args :: "nat \<Rightarrow> 'x \<Rightarrow> error option \<times> 'x"
  get_all_tasks_for_round :: "assigner \<Rightarrow> nat \<Rightarrow> error + string list"
  get_aggregation_type_for_task :: "assigner \<Rightarrow> string \<Rightarrow> error + 'g"
  assigner_add_collaborator :: "string \<Rightarrow> string \<Rightarrow> assigner \<Rightarrow> error option \<times> assigner"
  assigner_remove_collaborator :: "string \<Rightarrow> string \<Rightarrow> assigner \<Rightarrow> error option \<times> assigner"

definition valid_admin_cn_and_id :: "string \<Rightarrow> string \<Rightarrow> 'x aggregator \<Rightarrow> bool" where
  "valid_admin_cn_and_id cert_common_name admin_common_name s =
     (cert_common_name = admin_common_name
      \<and> admin_common_name \<in> dom (admins_endpoints_mapping s))"

definition valid_admin_endpoint :: "string \<Rightarrow> string \<Rightarrow> 'x aggregator \<Rightarrow> error + bool" where
  "valid_admin_endpoint endpoint_id admin_common_name s =
     (case admins_endpoints_mapping s admin_common_name of
        None \<Rightarrow> Inl KeyError
      | Some endpoints \<Rightarrow> Inr (endpoint_id \<in> set endpoints))"


definition get_sleep_time :: nat where
  "get_sleep_time = 10"

definition time_to_quit :: "'x aggregator \<Rightarrow> bool" where
  "time_to_quit s = (if round_number s \<ge> rounds_to_train s then True else False)"

definition collaborator_task_completed :: "string \<Rightarrow> string \<Rightarrow> nat \<Rightarrow> 'x aggregator \<Rightarrow> bool" where
  "collaborator_task_completed collaborator task round_num s =
     (TaskResultKey task collaborator round_num \<in> dom (collaborator_tasks_results s))"

text \<open>
  \<open>get_tasks\<close> replies \<open>(tasks, round_number, sleep_time, time_to_quit)\<close>; \<open>tasks\<close> is
  \<open>None\<close> or a list of task names.
\<close>

definition get_tasks ::
  "real \<Rightarrow> string \<Rightarrow> 'x aggregator
     \<Rightarrow> (error + (string list option \<times> nat \<times> nat \<times> bool)) \<times> 'x aggregator" where
  "get_tasks now collaborator_name s =
     (let s1 = (if collaborator_name \<notin> set (available_collaborators s)
                then s\<lparr>available_collaborators := available_collaborators s @ [collaborator_name]\<rparr>
                else s)
      in if time_to_quit s1 then
           (Inr (None, round_number s1, 0, True),
            s1\<lparr>quit_job_sent_to := quit_job_sent_to s1 @ [collaborator_name]\<rparr>)
         else
           (case get_tasks_for_collaborator collaborator_name (round_number s1) (assigner s1) of
              Inl e \<Rightarrow> (Inl e, s1)
            | Inr tasks0 \<Rightarrow>
                if length tasks0 = 0 then (Inr (None, round_number s1, get_sleep_time, False), s1)
                else
                  (let tasks1 = filter (\<lambda>t. \<not> collaborator_task_completed
                                               collaborator_name t (round_number s1) s1) tasks0;
                       tasks2 = (if collaborator_name \<in> set (stragglers s1) then [] else tasks1)
                   in if length tasks2 = 0
                      then (Inr (None, round_number s1, get_sleep_time, False), s1)
                      else
                        (let s2 = (if \<not> straggler_handling_policy_started_for_round s1
                                   then s1\<lparr>straggler_handling_policy_started_for_round := True,
                                           straggler_handling_policy :=
                                             start_policy now (straggler_handling_policy s1)\<rparr>
                                   else s1);
                             start = (case first_col_start s2 of None \<Rightarrow> now | Some t \<Rightarrow> t);
                             s3 = s2\<lparr>first_col_start := Some start\<rparr>;
                             s4 = (if collaborator_name \<notin> dom (collaborator_start_time s3)
                                   then s3\<lparr>collaborator_start_time :=
                                             (collaborator_start_time s3)
                                               (collaborator_name \<mapsto> now - start)\<rparr>
                                   else s3)
                         in (Inr (Some tasks2, round_number s4, 0, False), s4)))))"

text \<open>
  The pending changes are lists of pairs \<open>(label, cn)\<close>. \<open>list.remove(x)\<close> deletes the first
  element equal to \<open>x\<close> and raises \<open>ValueError\<close> when there is none. The source passes the
  string \<open>collaborator_cn\<close>; a string never equals a pair, so \<open>list_remove\<close> takes the
  Python value searched for.
\<close>

datatype py_value = Str string | Tuple2 string string

fun list_remove :: "py_value \<Rightarrow> (string \<times> string) list \<Rightarrow> error + (string \<times> string) list" where
  "list_remove (Tuple2 a b) xs =
     (if (a, b) \<in> set xs then Inr (remove1 (a, b) xs) else Inl ValueError)"
| "list_remove (Str x) xs = Inl ValueError"

definition add_collaborator ::
  "string \<Rightarrow> string \<Rightarrow> 'x aggregator \<Rightarrow> error option \<times> 'x aggregator" where
  "add_collaborator collaborator_label collaborator_cn s =
     (if (collaborator_label, collaborator_cn) \<in> set (collaborators_to_remove s) then
        (case list_remove (Str collaborator_cn) (collaborators_to_remove s) of
           Inl e \<Rightarrow> (Some e, s)
         | Inr xs \<Rightarrow> (None, s\<lparr>collaborators_to_remove := xs\<rparr>))
      else if (collaborator_label, collaborator_cn) \<in> set (collaborators_to_add s) then
        (Some ValueError, s)
      else if collaborator_cn \<in> set (authorized_cols s) then (Some ValueError, s)
      else (None, s\<lparr>collaborators_to_add :=
                      collaborators_to_add s @ [(collaborator_label, collaborator_cn)]\<rparr>))"

definition remove_collaborator ::
  "string \<Rightarrow> string \<Rightarrow> 'x aggregator \<Rightarrow> error option \<times> 'x aggregator" where
  "remove_collaborator collaborator_label collaborator_cn s =
     (if (collaborator_label, collaborator_cn) \<in> set (collaborators_to_add s) then
        (case list_remove (Str collaborator_cn) (collaborators_to_add s) of
           Inl e \<Rightarrow> (Some e, s)
         | Inr xs \<Rightarrow> (None, s\<lparr>collaborators_to_add := xs\<rparr>))
      else if (collaborator_label, collaborator_cn) \<in> set (collaborators_to_remove s) then
        (Some ValueError, s)
      else if collaborator_cn \<notin> set (authorized_cols s) then (Some ValueError, s)
      else (None, s\<lparr>collaborators_to_remove :=
                      collaborators_to_remove s @ [(collaborator_label, collaborator_cn)]\<rparr>))"

text \<open>
  \<open>_get_round_status\<close> and \<open>get_experiment_status\<close>.
\<close>

definition get_round_status :: "'x aggregator \<Rightarrow> round_status" where
  "get_round_status s =
     \<lparr>rs_round = round_number s, rs_round_start = first_col_start s,
      rs_collaborators = authorized_cols s, rs_start_times = collaborator_start_time s,
      rs_end_times = collaborator_end_time s, rs_stragglers = stragglers s,
      rs_to_add_next_round = collaborators_to_add s,
      rs_to_remove_next_round = collaborators_to_remove s,
      rs_available_collaborators = available_collaborators s,
      rs_assigned_collaborators = get_assigned_collaborators (assigner s)\<rparr>"

definition get_experiment_status :: "'x aggregator \<Rightarrow> round_status \<times> round_status option" where
  "get_experiment_status s = (get_round_status s, previous_round_status s)"

text \<open>
  \<open>_is_collaborator_done\<close>: the collaborator is appended to \<open>collaborators_done\<close> when
  every task the assigner gives it in the current round has a result.
\<close>

definition is_collaborator_done :: "string \<Rightarrow> 'x aggregator \<Rightarrow> error option \<times> 'x aggregator" where
  "is_collaborator_done collaborator_name s =
     (case get_tasks_for_collaborator collaborator_name (round_number s) (assigner s) of
        Inl e \<Rightarrow> (Some e, s)
      | Inr all_tasks \<Rightarrow>
          if list_all (\<lambda>task. collaborator_task_completed collaborator_name task (round_number s) s)
               all_tasks
          then (None, s\<lparr>collaborators_done := collaborators_done s @ [collaborator_name]\<rparr>)
          else (None, s))"

text \<open>
  \<open>_compute_validation_related_task_metrics\<close>. A dictionary comprehension over a list
  keeps one entry per key, in the order of first occurrence (\<open>dict_keys\<close>). Data sizes are
  Python integers; \<open>v / weight_total\<close> is a true division, which raises
  \<open>ZeroDivisionError\<close> for a zero total as soon as there is one entry to divide.
\<close>

definition dict_keys :: "'a list \<Rightarrow> 'a list" where
  "dict_keys xs = rev (remdups (rev xs))"

fun lookup_weights ::
  "(task_result_key \<rightharpoonup> int) \<Rightarrow> string \<Rightarrow> nat \<Rightarrow> string list \<Rightarrow> error + (string \<times> int) list" where
  "lookup_weights w task r [] = Inr []"
| "lookup_weights w task r (c # cs) =
     (case w (TaskResultKey task c r) of
        None \<Rightarrow> Inl KeyError
      | Some v \<Rightarrow>
          (case lookup_weights w task r cs of
             Inl e \<Rightarrow> Inl e
           | Inr rest \<Rightarrow> Inr ((c, v) # rest)))"

definition normalize_weights :: "(string \<times> int) list \<Rightarrow> error + (string \<times> rat) list" where
  "normalize_weights ws =
     (let weight_total = sum_list (map snd ws)
      in if ws \<noteq> [] \<and> weight_total = 0 then Inl ZeroDivisionError
         else Inr (map (\<lambda>(k, v). (k, of_int v / of_int weight_total)) ws))"

definition compute_validation_related_task_metrics ::
  "('w, 'x, 'g) env \<Rightarrow> string \<Rightarrow> 'x aggregator \<Rightarrow> error option \<times> 'x aggregator" where
  "compute_validation_related_task_metrics E task s =
     (case get_collaborators_for_task task (round_number s) (assigner s) of
        Inl e \<Rightarrow> (Some e, s)
      | Inr all_collaborators_for_task \<Rightarrow>
          (let collaborators_for_task =
                 filter (\<lambda>c. c \<in> set (collaborators_done s)) all_collaborators_for_task
           in case lookup_weights (collaborator_task_weight s) task (round_number s)
                     (dict_keys collaborators_for_task) of
                Inl e \<Rightarrow> (Some e, s)
              | Inr collaborator_weights_unnormalized \<Rightarrow>
                  (case normalize_weights collaborator_weights_unnormalized of
                     Inl e \<Rightarrow> (Some e, s)
                   | Inr collaborator_weight_dict \<Rightarrow>
                       (case get_aggregation_type_for_task E (assigner s) task of
                          Inl e \<Rightarrow> (Some e, s)
                        | Inr task_agg_function \<Rightarrow>
                            (case collaborators_for_task of
                               [] \<Rightarrow> (Some IndexError, s)
                             | first # others \<Rightarrow>
                                 (case collaborator_tasks_results s
                                         (TaskResultKey task first (round_number s)) of
                                    None \<Rightarrow> (Some KeyError, s)
                                  | Some tensor_keys \<Rightarrow>
                                      for_each
                                        (\<lambda>tensor_key s.
                                           if first \<notin> set (tags tensor_key)
                                           then (Some AssertionError, s)
                                           else (case aggregate_tensor E task task_agg_function
                                                        first collaborator_weight_dict tensor_key
                                                        (tensors s) of
                                                   (r, x) \<Rightarrow> (r, s\<lparr>tensors := x\<rparr>)))
                                        tensor_keys s))))))"

text \<open>
  The two loops of \<open>_end_of_round_check\<close> over the pending changes, on
  \<open>available_collaborators\<close>, and the two on \<open>authorized_cols\<close> and the assigner.
\<close>

definition add_to_available :: "(string \<times> string) list \<Rightarrow> string list \<Rightarrow> string list" where
  "add_to_available to_add available =
     fold (\<lambda>(col_label, col_cn) av. if col_cn \<notin> set av then av @ [col_cn] else av)
       to_add available"

definition remove_from_available :: "(string \<times> string) list \<Rightarrow> string list \<Rightarrow> string list" where
  "remove_from_available to_remove available =
     fold (\<lambda>(col_label, col_cn) av. if col_cn \<in> set av then remove1 col_cn av else av)
       to_remove available"

definition authorize_collaborator ::
  "('w, 'x, 'g) env \<Rightarrow> string \<times> string \<Rightarrow> 'x aggregator \<Rightarrow> error option \<times> 'x aggregator" where
  "authorize_collaborator E lc s =
     (let s1 = s\<lparr>authorized_cols := authorized_cols s @ [snd lc]\<rparr>
      in case assigner_add_collaborator E (fst lc) (snd lc) (assigner s1) of
           (r, a') \<Rightarrow> (r, s1\<lparr>assigner := a'\<rparr>))"

definition unauthorize_collaborator ::
  "('w, 'x, 'g) env \<Rightarrow> string \<times> string \<Rightarrow> 'x aggregator \<Rightarrow> error option \<times> 'x aggregator" where
  "unauthorize_collaborator E lc s =
     (if snd lc \<notin> set (authorized_cols s) then (Some ValueError, s)
      else
        (let s1 = s\<lparr>authorized_cols := remove1 (snd lc) (authorized_cols s)\<rparr>
         in case assigner_remove_collaborator E (fst lc) (snd lc) (assigner s1) of
              (r, a') \<Rightarrow> (r, s1\<lparr>assigner := a'\<rparr>)))"

text \<open>
  \<open>_end_of_round_check\<close>. Reading \<open>_end_of_round_check_done[round_number]\<close> past the end
  of the list raises \<open>IndexError\<close>. \<open>choice\<close> is the source of permutations handed to the
  assigner. The lists \<open>authorized_cols\<close> of the aggregator and of the assigner are taken
  to be two objects.
\<close>

definition finish_round ::
  "('w, 'x, 'g) env \<Rightarrow> 'x aggregator \<Rightarrow> error option \<times> 'x aggregator" where
  "finish_round E s =
     (case save_model E (round_number s) (tensors s) of
        (Some e, x) \<Rightarrow> (Some e, s\<lparr>tensors := x\<rparr>)
      | (None, x) \<Rightarrow>
          (case clean_up E x of
             (Some e, x1) \<Rightarrow> (Some e, s\<lparr>tensors := x1\<rparr>)
           | (None, x1) \<Rightarrow>
               (let s1 = s\<lparr>tensors := x1,
                           straggler_handling_policy :=
                             reset_policy_for_round (straggler_handling_policy s)\<rparr>
                in case write_dynamic_task_args E (round_number s1) (tensors s1) of
                     (Some e, x2) \<Rightarrow> (Some e, s1\<lparr>tensors := x2\<rparr>)
                   | (None, x2) \<Rightarrow>
                       (case for_each (authorize_collaborator E) (collaborators_to_add s1)
                               (s1\<lparr>tensors := x2\<rparr>) of
                          (Some e, s2) \<Rightarrow> (Some e, s2)
                        | (None, s2) \<Rightarrow>
                            (case for_each (unauthorize_collaborator E)
                                    (collaborators_to_remove s2)
                                    (s2\<lparr>collaborators_to_add := []\<rparr>) of
                               (Some e, s3) \<Rightarrow> (Some e, s3)
                             | (None, s3) \<Rightarrow> (None, s3\<lparr>collaborators_to_remove := []\<rparr>))))))"

definition end_of_round_check ::
  "('w, 'x, 'g) env \<Rightarrow> (nat \<Rightarrow> nat list) \<Rightarrow> 'x aggregator \<Rightarrow> error option \<times> 'x aggregator" where
  "end_of_round_check E choice s =
     (if \<not> round_number s < length (end_of_round_check_done s) then (Some IndexError, s)
      else if end_of_round_check_done s ! round_number s then (None, s)
      else
        (case get_all_tasks_for_round E (assigner s) (round_number s) of
           Inl e \<Rightarrow> (Some e, s)
         | Inr all_tasks \<Rightarrow>
             (case for_each (compute_validation_related_task_metrics E) all_tasks s of
                (Some e, s1) \<Rightarrow> (Some e, s1)
              | (None, s1) \<Rightarrow>
                  (let s2 = s1\<lparr>previous_round_status := Some (get_round_status s1),
                              collaborator_start_time := Map.empty,
                              collaborator_end_time := Map.empty,
                              first_col_start := None,
                              end_of_round_check_done :=
                                (end_of_round_check_done s1)[round_number s1 := True],
                              round_number := round_number s1 + 1\<rparr>;
                       s3 = s2\<lparr>available_collaborators :=
                                 remove_from_available (collaborators_to_remove s2)
                                   (add_to_available (collaborators_to_add s2)
                                      (available_collaborators s2))\<rparr>
                   in case end_of_round choice (available_collaborators s3) (stragglers s3)
                             (round_number s3) (assigner s3) of
                        (Some e, a') \<Rightarrow> (Some e, s3\<lparr>assigner := a'\<rparr>)
                      | (None, a') \<Rightarrow>
                          finish_round E
                            (s3\<lparr>assigner := a',
                                straggler_handling_policy_started_for_round := False,
                                stragglers := [],
                                available_collaborators := [],
                                collaborators_done := []\<rparr>)))))"

definition end_round_due_to_stragglers ::
  "('w, 'x, 'g) env \<Rightarrow> (nat \<Rightarrow> nat list) \<Rightarrow> 'x aggregator \<Rightarrow> error option \<times> 'x aggregator" where
  "end_round_due_to_stragglers E choice s =
     end_of_round_check E choice
       (s\<lparr>stragglers := filter (\<lambda>collab_name. collab_name \<notin> set (collaborators_done s))
                           (get_assigned_collaborators (assigner s))\<rparr>)"

text \<open>
  \<open>_straggler_cutoff_time_elapsed\<close>, the callback of the timer, and
  \<open>Aggregator.set_straggler_cutoff_time\<close>, which runs the callback itself when the policy
  says so.
\<close>

definition straggler_cutoff_time_elapsed ::
  "('w, 'x, 'g) env \<Rightarrow> (nat \<Rightarrow> nat list) \<Rightarrow> real \<Rightarrow> 'x aggregator \<Rightarrow> error option \<times> 'x aggregator" where
  "straggler_cutoff_time_elapsed E choice now s =
     (if straggler_cutoff_check now (int (length (collaborators_done s)))
           (int (length (get_assigned_collaborators (assigner s)))) (straggler_handling_policy s)
      then end_round_due_to_stragglers E choice s
      else (None, s))"

definition Aggregator_set_straggler_cutoff_time ::
  "('w, 'x, 'g) env \<Rightarrow> (nat \<Rightarrow> nat list) \<Rightarrow> real \<Rightarrow> seconds \<Rightarrow> 'x aggregator
     \<Rightarrow> error option \<times> 'x aggregator" where
  "Aggregator_set_straggler_cutoff_time E choice now v s =
     (case set_straggler_cutoff_time v now (straggler_handling_policy s) of
        (Inl e, p) \<Rightarrow> (Some e, s\<lparr>straggler_handling_policy := p\<rparr>)
      | (Inr called, p) \<Rightarrow>
          if called then straggler_cutoff_time_elapsed E choice now
                           (s\<lparr>straggler_handling_policy := p\<rparr>)
          else (None, s\<lparr>straggler_handling_policy := p\<rparr>))"

text \<open>
  \<open>send_local_task_results\<close>. The loop over \<open>named_tensors\<close> collects the tensor keys;
  \<open>time.time() - self.first_col_start\<close> raises \<open>TypeError\<close> while no task has been handed
  out in the round.
\<close>

fun process_named_tensors ::
  "('w, 'x, 'g) env \<Rightarrow> string \<Rightarrow> nat \<Rightarrow> string \<Rightarrow> 'w list \<Rightarrow> tensor_key list \<Rightarrow> 'x
     \<Rightarrow> (error + tensor_key list) \<times> 'x" where
  "process_named_tensors E collaborator_name r task [] task_results x = (Inr task_results, x)"
| "process_named_tensors E collaborator_name r task (named_tensor # rest) task_results x =
     (case process_named_tensor E named_tensor collaborator_name r task x of
        (Inl e, x') \<Rightarrow> (Inl e, x')
      | (Inr tensor_key, x') \<Rightarrow>
          process_named_tensors E collaborator_name r task rest (task_results @ [tensor_key]) x')"

definition send_local_task_results ::
  "('w, 'x, 'g) env \<Rightarrow> (nat \<Rightarrow> nat list) \<Rightarrow> real \<Rightarrow> string \<Rightarrow> int \<Rightarrow> string \<Rightarrow> int \<Rightarrow> 'w list
     \<Rightarrow> 'x aggregator \<Rightarrow> error option \<times> 'x aggregator" where
  "send_local_task_results E choice now collaborator_name round_num task data_size named_tensors s =
     (if time_to_quit s \<or> collaborator_name \<in> set (stragglers s) then (None, s)
      else if int (round_number s) \<noteq> round_num then (None, s)
      else if collaborator_task_completed collaborator_name task (round_number s) s
      then (Some ValueError, s)
      else
        (let task_key = TaskResultKey task collaborator_name (round_number s);
             s1 = s\<lparr>collaborator_task_weight := (collaborator_task_weight s)(task_key \<mapsto> data_size)\<rparr>
         in case process_named_tensors E collaborator_name (round_number s) task named_tensors []
                   (tensors s1) of
              (Inl e, x) \<Rightarrow> (Some e, s1\<lparr>tensors := x\<rparr>)
            | (Inr task_results, x) \<Rightarrow>
                (let s2 = s1\<lparr>tensors := x,
                            collaborator_tasks_results :=
                              (collaborator_tasks_results s1)(task_key \<mapsto> task_results)\<rparr>;
                     s3 = (if collaborator_name \<notin> dom (collaborator_end_time s2)
                           then s2\<lparr>collaborator_end_time :=
                                     (collaborator_end_time s2)(collaborator_name \<mapsto> Map.empty)\<rparr>
                           else s2)
                 in case first_col_start s3 of
                      None \<Rightarrow> (Some TypeError, s3)
                    | Some start \<Rightarrow>
                        (let ends = (case collaborator_end_time s3 collaborator_name of
                                       None \<Rightarrow> Map.empty | Some m \<Rightarrow> m);
                             s4 = s3\<lparr>collaborator_end_time :=
                                       (collaborator_end_time s3)
                                         (collaborator_name \<mapsto> ends(task \<mapsto> now - start))\<rparr>
                         in case is_collaborator_done collaborator_name s4 of
                              (Some e, s5) \<Rightarrow> (Some e, s5)
                            | (None, s5) \<Rightarrow>
                                if length (collaborators_done s5)
                                     = length (get_assigned_collaborators (assigner s5))
                                then end_of_round_check E choice s5
                                else if straggler_cutoff_check now
                                          (int (length (collaborators_done s5)))
                                          (int (length (get_assigned_collaborators (assigner s5))))
                                          (straggler_handling_policy s5)
                                then end_round_due_to_stragglers E choice s5
                                else (None, s5)))))"

text \<open>
  The entry points of the coordinator as events: the three collaborator calls, the admin
  calls, and the timer running its callback. \<open>get_aggregated_tensor\<close> reads the tensor
  database, waits and replies; it writes no attribute of the aggregator, and its reply is
  not modelled. \<open>rpc\<close> runs one event and keeps the state the call leaves behind, also
  when the call raises.
\<close>

datatype 'w event =
    Get_tasks string real
  | Get_aggregated_tensor string string int bool "string list" bool
  | Send_local_task_results string int string int "'w list" real "nat \<Rightarrow> nat list"
  | Add_collaborator string string
  | Remove_collaborator string string
  | Get_experiment_status
  | Set_straggler_cutoff_time seconds real "nat \<Rightarrow> nat list"
  | Timer_elapsed real "nat \<Rightarrow> nat list"

fun rpc :: "('w, 'x, 'g) env \<Rightarrow> 'w event \<Rightarrow> 'x aggregator \<Rightarrow> 'x aggregator" where
  "rpc E (Get_tasks collaborator_name now) s = snd (get_tasks now collaborator_name s)"
| "rpc E (Get_aggregated_tensor collaborator_name tensor round_num rep tgs lossless) s = s"
| "rpc E (Send_local_task_results collaborator_name round_num task data_size named_tensors
            now choice) s =
     snd (send_local_task_results E choice now collaborator_name round_num task data_size
            named_tensors s)"
| "rpc E (Add_collaborator col_label col_cn) s = snd (add_collaborator col_label col_cn s)"
| "rpc E (Remove_collaborator col_label col_cn) s = snd (remove_collaborator col_label col_cn s)"
| "rpc E Get_experiment_status s = s"
| "rpc E (Set_straggler_cutoff_time v now choice) s =
     snd (Aggregator_set_straggler_cutoff_time E choice now v s)"
| "rpc E (Timer_elapsed now choice) s = snd (straggler_cutoff_time_elapsed E choice now s)"

text \<open>The states a sequence of events goes through, the starting state first.\<close>

fun trace :: "('w, 'x, 'g) env \<Rightarrow> 'w event list \<Rightarrow> 'x aggregator \<Rightarrow> 'x aggregator list" where
  "trace E [] s = [s]"
| "trace E (e # es) s = s # trace E es (rpc E e s)"

section \<open>The gRPC server: validation of admin requests\<close>

text \<open>
  \<open>aggregator_server.py\<close>. Of a request only the sender in its header is read, of the
  context only the common name of the peer certificate (the random delay before an
  authentication failure is left out). A call of a Python method binds the positional
  arguments to the parameters and raises \<open>TypeError\<close> when their number differs;
  \<open>call_valid_admin_endpoint\<close> is such a call of \<open>Aggregator.valid_admin_endpoint\<close>, which
  has the two parameters \<open>endpoint_id\<close> and \<open>admin_common_name\<close>.
\<close>

record 'x server =
  aggregator :: "'x aggregator"
  tls :: bool

definition call_valid_admin_endpoint :: "string list \<Rightarrow> 'x aggregator \<Rightarrow> error + bool" where
  "call_valid_admin_endpoint args s =
     (case args of
        [endpoint_id, admin_common_name] \<Rightarrow> valid_admin_endpoint endpoint_id admin_common_name s
      | _ \<Rightarrow> Inl TypeError)"

definition validate_admin :: "string \<Rightarrow> string \<Rightarrow> string \<Rightarrow> 'x server \<Rightarrow> error option" where
  "validate_admin sender common_name endpoint_name srv =
     (if tls srv \<and> \<not> valid_admin_cn_and_id common_name sender (aggregator srv)
      then Some (Abort UNAUTHENTICATED)
      else (case call_valid_admin_endpoint [endpoint_name] (aggregator srv) of
              Inl e \<Rightarrow> Some e
            | Inr ok \<Rightarrow> if \<not> ok then Some (Abort UNAVAILABLE) else None))"

text \<open>
  The handlers \<open>AddCollaborator\<close> and \<open>RemoveCollaborator\<close>: validation first, then
  \<open>check_admin_request\<close>, then the operation of the aggregator. \<open>check_admin_request\<close>
  reads \<open>self.aggregator.admins\<close>, an attribute that \<open>Aggregator\<close> never sets, which
  raises \<open>AttributeError\<close>.
\<close>

definition check_admin_request :: "string \<Rightarrow> 'x server \<Rightarrow> error option" where
  "check_admin_request sender srv = Some AttributeError"


definition RemoveCollaborator ::
  "string \<Rightarrow> string \<Rightarrow> string \<Rightarrow> string \<Rightarrow> 'x server \<Rightarrow> error option \<times> 'x server" where
  "RemoveCollaborator sender common_name col_label col_cn srv =
     (case validate_admin sender common_name ''RemoveCollaborator'' srv of
        Some e \<Rightarrow> (Some e, srv)
      | None \<Rightarrow>
          (case check_admin_request sender srv of
             Some e \<Rightarrow> (Some e, srv)
           | None \<Rightarrow>
               (case remove_collaborator col_label col_cn (aggregator srv) of
                  (r, s') \<Rightarrow> (r, srv\<lparr>aggregator := s'\<rparr>))))"

section \<open>Example federation\<close>






section \<open>Observations of the assigner and the specification's selections\<close>









section \<open>Example assigners\<close>




section \<open>Properties of the straggler policy\<close>

lemma py_max_minimum:
  "py_max v MINIMUM_CUTOFF_SECONDS = (case v of Finite x \<Rightarrow> Finite (max x 20) | Inf \<Rightarrow> Inf)"
  by (cases v) (auto simp: py_max_def MINIMUM_CUTOFF_SECONDS_def)

lemma cutoff_after_set_cutoff_time:
  "straggler_cutoff_time (set_cutoff_time v p) =
     (case v of Finite x \<Rightarrow> Finite (max x 20) | Inf \<Rightarrow> Inf)"
  by (simp add: set_cutoff_time_def py_max_minimum)

lemma cutoff_after_set_straggler_cutoff_time:
  "straggler_cutoff_time (snd (set_straggler_cutoff_time v now p)) =
     (case v of Finite x \<Rightarrow> Finite (max x 20) | Inf \<Rightarrow> Inf)"
  by (simp add: set_straggler_cutoff_time_def Let_def cutoff_after_set_cutoff_time
           split: option.splits)

lemma expired_never_with_Inf:
  "straggler_cutoff_time p = Inf \<Longrightarrow> \<not> straggler_time_expired now p"
  by (simp add: straggler_time_expired_def split: option.splits)

text \<open>
  Claim C9. For a finite requested cutoff \<open>v\<close> the cutoff in force after a successful
  construction, and after \<open>set_straggler_cutoff_time v\<close> (whether or not that call then
  raises), is \<open>max v 20\<close>; a requested \<open>np.inf\<close> stays \<open>np.inf\<close>. Construction succeeds
  for every positive \<open>minimum_reporting\<close>. With the cutoff at \<open>np.inf\<close> the policy is
  disabled: \<open>start_policy\<close> changes nothing and \<open>straggler_cutoff_check\<close> is false.
\<close>

theorem cutoff_time_clamped:
  "(0 < m \<longrightarrow> (\<exists>p. CutoffTimeBasedStragglerHandling_init rst (Finite v) m = Inr p
                    \<and> straggler_cutoff_time p = Finite (max v 20))
            \<and> (\<exists>p. CutoffTimeBasedStragglerHandling_init rst Inf m = Inr p
                    \<and> straggler_cutoff_time p = Inf))
   \<and> straggler_cutoff_time (snd (set_straggler_cutoff_time (Finite v) now p0)) = Finite (max v 20)
   \<and> straggler_cutoff_time (snd (set_straggler_cutoff_time Inf now p0)) = Inf
   \<and> (straggler_cutoff_time p0 = Inf \<longrightarrow>
        start_policy now p0 = p0 \<and> \<not> straggler_cutoff_check now d n p0)"
proof -
  have init: "0 < m \<Longrightarrow> CutoffTimeBasedStragglerHandling_init rst c m =
      Inr (set_cutoff_time c \<lparr>round_start_time = rst, straggler_cutoff_time = c,
              minimum_reporting = m, timer = None, callback = False\<rparr>)" for c
    by (simp add: CutoffTimeBasedStragglerHandling_init_def)
  have a: "0 < m \<longrightarrow> (\<exists>p. CutoffTimeBasedStragglerHandling_init rst (Finite v) m = Inr p
                    \<and> straggler_cutoff_time p = Finite (max v 20))"
    by (simp add: init cutoff_after_set_cutoff_time)
  have b: "0 < m \<longrightarrow> (\<exists>p. CutoffTimeBasedStragglerHandling_init rst Inf m = Inr p
                    \<and> straggler_cutoff_time p = Inf)"
    by (simp add: init cutoff_after_set_cutoff_time)
  have c: "straggler_cutoff_time (snd (set_straggler_cutoff_time (Finite v) now p0))
            = Finite (max v 20)"
    by (simp add: cutoff_after_set_straggler_cutoff_time)
  have d: "straggler_cutoff_time (snd (set_straggler_cutoff_time Inf now p0)) = Inf"
    by (simp add: cutoff_after_set_straggler_cutoff_time)
  have e: "straggler_cutoff_time p0 = Inf \<longrightarrow>
        start_policy now p0 = p0 \<and> \<not> straggler_cutoff_check now d n p0"
    by (simp add: start_policy_def straggler_cutoff_check_def expired_never_with_Inf)
  from a b c d e show ?thesis by blast
qed

theorem cutoff_time_clamped_witness:
  "(\<exists>p. CutoffTimeBasedStragglerHandling_init None (Finite 5) 1 = Inr p
        \<and> straggler_cutoff_time p = Finite 20)
   \<and> (\<exists>p. CutoffTimeBasedStragglerHandling_init None Inf 1 = Inr p
        \<and> straggler_cutoff_time p = Inf)
   \<and> straggler_cutoff_time (snd (set_straggler_cutoff_time (Finite 45) 7
        \<lparr>round_start_time = Some 3, straggler_cutoff_time = Inf, minimum_reporting = 1,
         timer = None, callback = True\<rparr>)) = Finite 45
   \<and> \<not> straggler_cutoff_check 7 3 3
        \<lparr>round_start_time = Some 3, straggler_cutoff_time = Inf, minimum_reporting = 1,
         timer = None, callback = True\<rparr>"
  using cutoff_time_clamped [of 1 None 5 7
      "\<lparr>round_start_time = Some 3, straggler_cutoff_time = Inf, minimum_reporting = 1,
         timer = None, callback = True\<rparr>" 3 3]
    cutoff_time_clamped [of 1 None 45 7
      "\<lparr>round_start_time = Some 3, straggler_cutoff_time = Inf, minimum_reporting = 1,
         timer = None, callback = True\<rparr>" 3 3]
  by simp

text \<open>
  Claim C6, as stated, fails in its last clause. \<open>reset_policy_for_round\<close> cancels the
  timer and leaves \<open>round_start_time\<close> as it is, so after a round has ended and before
  \<open>start_policy\<close> runs for the next one the check still measures from the previous round's
  start: with cutoff 20 and \<open>minimum_reporting\<close> 1, a policy started at time 0 and reset answers
  true to \<open>straggler_cutoff_check(1, 3)\<close> at time 100. The same holds for a policy that was
  constructed with an explicit \<open>round_start_time\<close> and never started.
\<close>

theorem straggler_cutoff_check_stale_start_counterexample:
  "CutoffTimeBasedStragglerHandling_init None (Finite 20) 1 =
     Inr \<lparr>round_start_time = None, straggler_cutoff_time = Finite 20, minimum_reporting = 1,
          timer = None, callback = False\<rparr>
   \<and> reset_policy_for_round (start_policy 0
        \<lparr>round_start_time = None, straggler_cutoff_time = Finite 20, minimum_reporting = 1,
         timer = None, callback = False\<rparr>) =
     \<lparr>round_start_time = Some 0, straggler_cutoff_time = Finite 20, minimum_reporting = 1,
      timer = None, callback = True\<rparr>
   \<and> straggler_cutoff_check 100 1 3
        (reset_policy_for_round (start_policy 0
          \<lparr>round_start_time = None, straggler_cutoff_time = Finite 20, minimum_reporting = 1,
           timer = None, callback = False\<rparr>))
   \<and> CutoffTimeBasedStragglerHandling_init (Some 0) (Finite 20) 1 =
     Inr \<lparr>round_start_time = Some 0, straggler_cutoff_time = Finite 20, minimum_reporting = 1,
          timer = None, callback = False\<rparr>
   \<and> straggler_cutoff_check 100 1 3
        \<lparr>round_start_time = Some 0, straggler_cutoff_time = Finite 20, minimum_reporting = 1,
         timer = None, callback = False\<rparr>"
  by (simp add: CutoffTimeBasedStragglerHandling_init_def set_cutoff_time_def py_max_def
        MINIMUM_CUTOFF_SECONDS_def start_policy_def reset_policy_for_round_def
        straggler_cutoff_check_def straggler_time_expired_def
        minimum_collaborators_reported_def)

text \<open>
  Claim C6, amended. \<open>straggler_cutoff_check\<close> is true exactly when a round start time
  \<open>t\<close> is recorded, the cutoff is a finite \<open>c\<close> with \<open>c < now - t\<close> (strictly more than the
  cutoff has passed; never for \<open>np.inf\<close>), and the number of finished collaborators has
  reached \<open>minimum_reporting\<close>. The recorded start time is the one of the latest
  \<open>start_policy\<close> (or the one given to the constructor), of whichever round. While no start
  time is recorded the check is false, whatever the clock and the counts are; that is the
  state of a policy built with the default \<open>round_start_time\<close> until its first
  \<open>start_policy\<close>, also after \<open>reset_policy_for_round\<close> and
  \<open>set_straggler_cutoff_time\<close>.
\<close>

theorem straggler_cutoff_check_iff:
  "(straggler_cutoff_check now d n p \<longleftrightarrow>
      (\<exists>t c. round_start_time p = Some t \<and> straggler_cutoff_time p = Finite c \<and> c < now - t)
      \<and> minimum_reporting p \<le> d)
   \<and> (round_start_time p = None \<longrightarrow> \<not> straggler_cutoff_check now d n p)
   \<and> (CutoffTimeBasedStragglerHandling_init None c0 m = Inr p \<longrightarrow>
        \<not> straggler_cutoff_check now d n p
        \<and> \<not> straggler_cutoff_check now d n (reset_policy_for_round p)
        \<and> \<not> straggler_cutoff_check now d n (snd (set_straggler_cutoff_time c' now' p)))"
proof -
  have gt_pinned: "gt (Finite x) y \<longleftrightarrow> (\<exists>c. y = Finite c \<and> c < x)" for x y
    by (cases y) auto
  have iff: "straggler_cutoff_check now d n q \<longleftrightarrow>
      (\<exists>t c. round_start_time q = Some t \<and> straggler_cutoff_time q = Finite c \<and> c < now - t)
      \<and> minimum_reporting q \<le> d" for q
    by (auto simp: straggler_cutoff_check_def straggler_time_expired_def gt_pinned
          minimum_collaborators_reported_def split: option.splits)
  have none: "round_start_time q = None \<Longrightarrow> \<not> straggler_cutoff_check now d n q" for q
    by (simp add: iff)
  have rst_init: "CutoffTimeBasedStragglerHandling_init None c0 m = Inr p
        \<Longrightarrow> round_start_time p = None"
    by (auto simp: CutoffTimeBasedStragglerHandling_init_def set_cutoff_time_def
          split: if_splits)
  have rst_reset: "round_start_time (reset_policy_for_round q) = round_start_time q" for q
    by (simp add: reset_policy_for_round_def split: option.splits)
  have rst_set: "round_start_time q = None \<Longrightarrow>
      round_start_time (snd (set_straggler_cutoff_time c' now' q)) = None" for q
    by (simp add: set_straggler_cutoff_time_def Let_def set_cutoff_time_def rst_reset
          straggler_time_expired_def)
  show ?thesis
    using iff [of p] none rst_init rst_reset rst_set by metis
qed

text \<open>
  The witness runs the check one second past the cutoff (true), exactly at the cutoff
  (false: the comparison is strict), past the cutoff with too few collaborators (false), and
  on a freshly constructed policy (false).
\<close>

theorem straggler_cutoff_check_iff_witness:
  "straggler_cutoff_check 31 2 3
      \<lparr>round_start_time = Some 10, straggler_cutoff_time = Finite 20, minimum_reporting = 2,
       timer = None, callback = True\<rparr>
   \<and> \<not> straggler_cutoff_check 30 2 3
      \<lparr>round_start_time = Some 10, straggler_cutoff_time = Finite 20, minimum_reporting = 2,
       timer = None, callback = True\<rparr>
   \<and> \<not> straggler_cutoff_check 31 1 3
      \<lparr>round_start_time = Some 10, straggler_cutoff_time = Finite 20, minimum_reporting = 2,
       timer = None, callback = True\<rparr>
   \<and> \<not> straggler_cutoff_check 31 5 5
      \<lparr>round_start_time = None, straggler_cutoff_time = Finite 20, minimum_reporting = 2,
       timer = None, callback = False\<rparr>"
proof -
  have a: "straggler_cutoff_check 31 2 3
      \<lparr>round_start_time = Some 10, straggler_cutoff_time = Finite 20, minimum_reporting = 2,
       timer = None, callback = True\<rparr>"
    using straggler_cutoff_check_iff [of 31 2 3
      "\<lparr>round_start_time = Some 10, straggler_cutoff_time = Finite 20, minimum_reporting = 2,
       timer = None, callback = True\<rparr>"]
    by simp
  have a': "\<not> straggler_cutoff_check 30 2 3
      \<lparr>round_start_time = Some 10, straggler_cutoff_time = Finite 20, minimum_reporting = 2,
       timer = None, callback = True\<rparr>"
    using straggler_cutoff_check_iff [of 30 2 3
      "\<lparr>round_start_time = Some 10, straggler_cutoff_time = Finite 20, minimum_reporting = 2,
       timer = None, callback = True\<rparr>"]
    by simp
  have a'': "\<not> straggler_cutoff_check 31 1 3
      \<lparr>round_start_time = Some 10, straggler_cutoff_time = Finite 20, minimum_reporting = 2,
       timer = None, callback = True\<rparr>"
    using straggler_cutoff_check_iff [of 31 1 3
      "\<lparr>round_start_time = Some 10, straggler_cutoff_time = Finite 20, minimum_reporting = 2,
       timer = None, callback = True\<rparr>"]
    by simp
  have init: "CutoffTimeBasedStragglerHandling_init None (Finite 20) 2 =
      Inr \<lparr>round_start_time = None, straggler_cutoff_time = Finite 20, minimum_reporting = 2,
       timer = None, callback = False\<rparr>"
    by (simp add: CutoffTimeBasedStragglerHandling_init_def set_cutoff_time_def py_max_def
          MINIMUM_CUTOFF_SECONDS_def)
  have b: "\<not> straggler_cutoff_check 31 5 5
      \<lparr>round_start_time = None, straggler_cutoff_time = Finite 20, minimum_reporting = 2,
       timer = None, callback = False\<rparr>"
    using init straggler_cutoff_check_iff [of 31 5 5
      "\<lparr>round_start_time = None, straggler_cutoff_time = Finite 20, minimum_reporting = 2,
       timer = None, callback = False\<rparr>" "Finite 20" 2]
    by simp
  from a a' a'' b show ?thesis by simp
qed

section \<open>Properties of the admin surface\<close>

lemma call_valid_admin_endpoint_one_argument:
  "call_valid_admin_endpoint [endpoint_name] s = Inl TypeError"
  by (simp add: call_valid_admin_endpoint_def)

lemma validate_admin_never_succeeds:
  "validate_admin sender common_name endpoint_name srv \<noteq> None"
  by (simp add: validate_admin_def call_valid_admin_endpoint_one_argument)






section \<open>Properties of quitting\<close>





section \<open>Properties of the assigner\<close>

subsection \<open>Loops and what they leave unchanged\<close>
















subsection \<open>One group, one round, all rounds\<close>


























subsection \<open>The partition of the assignees\<close>




subsection \<open>The end of a round\<close>




end
